theory Spec2Isabelle
  imports Main "HOL-Library.Multiset" "HOL-Library.Finite_Map" "HOL-Library.Char_ord" "HOL-Library.List_Lexorder"
begin

section \<open>Entities\<close>

text \<open>
  Modelled from the spec: the declaration of the entity type (\<^verbatim>\<open>Board\<close>, imported from
  \<^verbatim>\<open>blocks/board\<close>) is not among the sources. The record has the fields that
  \<^verbatim>\<open>boardTemplateSelector.tsx\<close> reads (\<^verbatim>\<open>id\<close>, \<^verbatim>\<open>title\<close>, \<^verbatim>\<open>workspaceId\<close>, \<^verbatim>\<open>createAt\<close>)
  and the two remaining attributes of the spec's data model, the kind tag and the property bag.
  Creation timestamps are integral milliseconds, hence \<open>int\<close>. The field \<^verbatim>\<open>id\<close> is
  written \<open>id'\<close>, the plain name being the identity function of HOL.
\<close>

datatype kind = KBoard | KTemplate | KCard | KView

record Entity =
  id' :: string
  title :: string
  workspaceId :: string
  createAt :: int
  kind :: kind
  props :: "(string \<times> string) list"

type_synonym Board = Entity

section \<open>The board template selector\<close>

subsection \<open>Array primitives of the host language\<close>

text \<open>
  \<^verbatim>\<open>xs[0]\<close> on an array: the first element, \<^verbatim>\<open>undefined\<close> (here \<open>None\<close>) when the array
  is empty.
\<close>

fun at0 :: "'a list \<Rightarrow> 'a option" where
  "at0 [] = None"
| "at0 (x # xs) = Some x"

text \<open>
  \<^verbatim>\<open>Array.prototype.sort(cmp)\<close>: the language standard requires a stable sort, and for a
  consistent comparator the result is ordered by it. A stable sort is determined by these two
  requirements, so the insertion sort below computes the same array as any conforming engine.
  The comparator returns a number; a positive result puts its first argument after the second.
\<close>

fun insert_cmp :: "('a \<Rightarrow> 'a \<Rightarrow> int) \<Rightarrow> 'a \<Rightarrow> 'a list \<Rightarrow> 'a list" where
  "insert_cmp cmp x [] = [x]"
| "insert_cmp cmp x (y # ys) = (if cmp x y > 0 then y # insert_cmp cmp x ys else x # y # ys)"

definition Array_sort :: "('a \<Rightarrow> 'a \<Rightarrow> int) \<Rightarrow> 'a list \<Rightarrow> 'a list" where
  "Array_sort cmp xs = foldr (insert_cmp cmp) xs []"

text \<open>
  \<^verbatim>\<open>Object.values(o)\<close> of a dictionary \<^verbatim>\<open>{[key: string]: Board}\<close>. The dictionary is an
  association list in the enumeration order of its keys.
\<close>

definition Object_values :: "(string \<times> 'v) list \<Rightarrow> 'v list" where
  "Object_values o' = map snd o'"

subsection \<open>Derived values of one render\<close>

text \<open>
  \<^verbatim>\<open>const templates = useMemo(() => Object.values(unsortedTemplates).sort((a, b) =>
  a.createAt - b.createAt), [unsortedTemplates])\<close>
\<close>

definition templates :: "(string \<times> Board) list \<Rightarrow> Board list" where
  "templates unsortedTemplates =
     Array_sort (\<lambda>a b. createAt a - createAt b) (Object_values unsortedTemplates)"

text \<open>\<^verbatim>\<open>const allTemplates = globalTemplates.concat(templates)\<close>\<close>

definition allTemplates :: "Board list \<Rightarrow> (string \<times> Board) list \<Rightarrow> Board list" where
  "allTemplates globalTemplates unsortedTemplates = globalTemplates @ templates unsortedTemplates"

subsection \<open>Hooks\<close>

text \<open>
  What the component reads on a render: the two selectors and the workspace of the client.
\<close>

record Inputs =
  globalTemplates :: "Board list"
  unsortedTemplates :: "(string \<times> Board) list"
  octoClient_workspaceId :: string

text \<open>
  What the component keeps between renders: the \<^verbatim>\<open>useState\<close> cell and, for each of the two
  \<^verbatim>\<open>useEffect\<close> calls, the dependency array of the previous render.
\<close>

record Hooks =
  activeTemplate :: "Board option"
  fetchDeps :: string
  selectionDeps :: "Board list \<times> Board list"

datatype Action = FetchGlobalTemplates | PatchProps

text \<open>
  The body of the first effect:
  \<^verbatim>\<open>if (octoClient.workspaceId !== '0' && globalTemplates.length === 0) {
      dispatch(fetchGlobalTemplates()) }\<close>
\<close>

definition fetchEffect :: "Inputs \<Rightarrow> Action list" where
  "fetchEffect i =
     (if octoClient_workspaceId i \<noteq> ''0'' \<and> length (globalTemplates i) = 0
      then [FetchGlobalTemplates] else [])"

text \<open>
  The body of the second effect:
  \<^verbatim>\<open>if (!activeTemplate) { setActiveTemplate(templates.concat(globalTemplates)[0]) }\<close>
\<close>

definition selectionEffect :: "Inputs \<Rightarrow> Board option \<Rightarrow> Board option" where
  "selectionEffect i active =
     (if active = None then at0 (templates (unsortedTemplates i) @ globalTemplates i)
      else active)"

text \<open>
  The first render: \<^verbatim>\<open>useState<Board>(allTemplates[0])\<close> takes its initial value, and both
  effects run.
\<close>

definition mount :: "Inputs \<Rightarrow> Hooks \<times> Action list" where
  "mount i =
     (let active = at0 (allTemplates (globalTemplates i) (unsortedTemplates i))
      in (\<lparr>activeTemplate = selectionEffect i active,
           fetchDeps = octoClient_workspaceId i,
           selectionDeps = (templates (unsortedTemplates i), globalTemplates i)\<rparr>,
          fetchEffect i))"

text \<open>
  A later render: an effect runs when its dependency array differs from the one of the previous
  render (\<^verbatim>\<open>[octoClient.workspaceId]\<close> for the first, \<^verbatim>\<open>[templates, globalTemplates]\<close> for the
  second). The second effect compares arrays by reference; a render with new references to
  equal arrays runs the body on the values of its previous run, which changes nothing, so the
  comparison of values below yields the same state.
\<close>

definition rerender :: "Inputs \<Rightarrow> Hooks \<Rightarrow> Hooks \<times> Action list" where
  "rerender i h =
     (let deps = (templates (unsortedTemplates i), globalTemplates i)
      in (\<lparr>activeTemplate =
             (if deps \<noteq> selectionDeps h then selectionEffect i (activeTemplate h)
              else activeTemplate h),
           fetchDeps = octoClient_workspaceId i,
           selectionDeps = deps\<rparr>,
          (if octoClient_workspaceId i \<noteq> fetchDeps h then fetchEffect i else [])))"

text \<open>\<^verbatim>\<open>onSelect={setActiveTemplate}\<close>: the user picks a template of the list.\<close>

definition onSelect :: "Board \<Rightarrow> Hooks \<Rightarrow> Hooks" where
  "onSelect t h = h\<lparr>activeTemplate := Some t\<rparr>"

section \<open>Mutation core\<close>

text \<open>
  Modelled from the spec: the mutator and its undo manager (imported by the selector from
  \<^verbatim>\<open>../../mutator\<close>), the block store and the network client are not among the sources. This
  section follows the spec's component design: the Entity Store contract, Command and History,
  the Remote Client interface and the verb catalog of the Mutator.
\<close>

subsection \<open>Entity Store\<close>

text \<open>
  Modelled from the spec: the error kinds of the core, and the result that every verb and
  every operation of the History returns: success, or one of the kinds.
\<close>

datatype error = NotFound | MutationFailed | EmptyHistory | Desynchronized

datatype result = Success | Failure error

text \<open>
  Modelled from the spec: the Entity Store, an in-memory mapping of entity id to the current
  snapshot of the entity.
\<close>

type_synonym EntityStore = "(string, Entity) fmap"

text \<open>Modelled from the spec: \<^verbatim>\<open>get(id)\<close> returns the entity, or not-found.\<close>

definition get :: "EntityStore \<Rightarrow> string \<Rightarrow> error + Entity" where
  "get m i = (case fmlookup m i of None \<Rightarrow> Inl NotFound | Some e \<Rightarrow> Inr e)"

text \<open>
  Modelled from the spec: \<^verbatim>\<open>put(entity)\<close> upserts; the full entity overwrites any previous
  value for its id.
\<close>

definition put :: "Entity \<Rightarrow> EntityStore \<Rightarrow> EntityStore" where
  "put e m = fmupd (id' e) e m"

text \<open>Modelled from the spec: \<^verbatim>\<open>remove(id)\<close> deletes; removing an absent id is a no-op.\<close>

definition remove_entity :: "string \<Rightarrow> EntityStore \<Rightarrow> EntityStore" where
  "remove_entity i m = fmdrop i m"


subsection \<open>Remote Client\<close>

text \<open>
  Modelled from the spec: the Remote Client (\<^verbatim>\<open>octoClient\<close> is not among the sources), the
  external collaborator that persists entities. Only whether it confirms or rejects a call
  is modelled (\<open>True\<close> is a confirmation); the snapshot it confirms is the entity submitted.
  Each operation of the core receives the client as it behaves at that moment.
\<close>

record RemoteClient =
  remote_create :: "Entity \<Rightarrow> bool"
  remote_delete :: "string \<Rightarrow> bool"

subsection \<open>Command and History\<close>

text \<open>
  Modelled from the spec: the state that the procedures of a command act on, that is the store,
  the order in which the dictionary that holds the store enumerates its keys, and the user
  interface. The callbacks handed to the verbs act on the latter; an invocation is recorded by
  the callback's role and its argument. The record of calls holds the callbacks of the actions
  that completed.
\<close>

datatype Callback = Navigation | FallbackNavigation | OnBeforeUndo | OnAfterRedo

record World =
  store :: EntityStore
  calls :: "(Callback \<times> string option) list"
  keyOrder :: "string list"

text \<open>
  Modelled from the spec: the store is held in a dictionary of the host language, which
  enumerates its keys in the order of their insertion. \<open>keyOrder\<close> is that order. Writing
  under a key that is present leaves the key at its place; a new key, also one that had been
  removed before, comes last.
\<close>

definition putEntity :: "Entity \<Rightarrow> World \<Rightarrow> World" where
  "putEntity e w =
     w\<lparr>store := put e (store w),
       keyOrder := (if id' e \<in> set (keyOrder w) then keyOrder w else keyOrder w @ [id' e])\<rparr>"

definition removeEntity :: "string \<Rightarrow> World \<Rightarrow> World" where
  "removeEntity i w =
     w\<lparr>store := remove_entity i (store w), keyOrder := removeAll i (keyOrder w)\<rparr>"


text \<open>
  Modelled from the spec: the entities of the store, in the order in which the dictionary
  enumerates them.
\<close>

definition entities :: "World \<Rightarrow> Entity list" where
  "entities w = List.map_filter (fmlookup (store w)) (keyOrder w)"

text \<open>
  Modelled from the spec: the derived views of the store, which the selector reads through
  \<^verbatim>\<open>getGlobalTemplates\<close> and \<^verbatim>\<open>getTemplates\<close> (\<^verbatim>\<open>store/globalTemplates\<close> and
  \<^verbatim>\<open>store/boards\<close> are not among the sources): the templates of the global scope (scope id
  \<^verbatim>\<open>"0"\<close>) and the dictionary of the templates of the client's workspace.
\<close>

definition isTemplateOf :: "string \<Rightarrow> Entity \<Rightarrow> bool" where
  "isTemplateOf scope e \<longleftrightarrow> kind e = KTemplate \<and> workspaceId e = scope"

text \<open>
  Modelled from the spec: what the selector reads in a given workspace, by the two derived
  views. The dictionary of the workspace's templates enumerates them as the store does.
\<close>

definition selectorInputs :: "string \<Rightarrow> World \<Rightarrow> Inputs" where
  "selectorInputs workspace w =
     \<lparr>globalTemplates = filter (isTemplateOf ''0'') (entities w),
      unsortedTemplates = map (\<lambda>e. (id' e, e)) (filter (isTemplateOf workspace) (entities w)),
      octoClient_workspaceId = workspace\<rparr>"

text \<open>
  The combined display of the templates: the listing that the selector computes from the two
  views, with the sort of the workspace's templates by creation timestamp.
\<close>

definition combinedListing :: "string \<Rightarrow> World \<Rightarrow> Entity list" where
  "combinedListing workspace w =
     (let i = selectorInputs workspace w in allTemplates (globalTemplates i) (unsortedTemplates i))"

text \<open>
  Modelled from the spec: a command holds a display label, a forward and a reverse procedure,
  and the id of the entity
  principally affected. A procedure that signals an error leaves no resulting state.
\<close>

record Command =
  label :: string
  forward :: "RemoteClient \<Rightarrow> World \<Rightarrow> error + World"
  reverse :: "RemoteClient \<Rightarrow> World \<Rightarrow> error + World"
  entityId :: string

text \<open>
  Modelled from the spec: the state of a client session, made of the world the commands act
  on, the two stacks of the History
  (top first) and the ids the Mutator has handed out or seen deleted, which are never used again.
\<close>

record System =
  world :: World
  undoStack :: "Command list"
  redoStack :: "Command list"
  issued :: "string list"

text \<open>
  Modelled from the spec: \<^verbatim>\<open>History.execute(command)\<close> runs the forward procedure; on success push the command on the
  undo stack and clear the redo stack; on failure discard the command and propagate the error.
\<close>

definition execute :: "RemoteClient \<Rightarrow> Command \<Rightarrow> System \<Rightarrow> result \<times> System" where
  "execute r c s =
     (case forward c r (world s) of
        Inl e \<Rightarrow> (Failure e, s)
      | Inr w \<Rightarrow> (Success, s\<lparr>world := w, undoStack := c # undoStack s, redoStack := []\<rparr>))"

text \<open>
  Modelled from the spec: \<^verbatim>\<open>History.undo()\<close> fails with \<^verbatim>\<open>EmptyHistory\<close> on an empty undo stack; otherwise pop the top command,
  run its reverse procedure and push it on the redo stack. When the reverse procedure fails the
  command is dropped and the error propagates.
\<close>

definition undo :: "RemoteClient \<Rightarrow> System \<Rightarrow> result \<times> System" where
  "undo r s =
     (case undoStack s of
        [] \<Rightarrow> (Failure EmptyHistory, s)
      | c # cs \<Rightarrow>
          (case reverse c r (world s) of
             Inl e \<Rightarrow> (Failure e, s\<lparr>undoStack := cs\<rparr>)
           | Inr w \<Rightarrow> (Success, s\<lparr>world := w, undoStack := cs, redoStack := c # redoStack s\<rparr>)))"

text \<open>Modelled from the spec: \<^verbatim>\<open>History.redo()\<close> is symmetric to \<^verbatim>\<open>History.undo()\<close>.\<close>

definition redo :: "RemoteClient \<Rightarrow> System \<Rightarrow> result \<times> System" where
  "redo r s =
     (case redoStack s of
        [] \<Rightarrow> (Failure EmptyHistory, s)
      | c # cs \<Rightarrow>
          (case forward c r (world s) of
             Inl e \<Rightarrow> (Failure e, s\<lparr>redoStack := cs\<rparr>)
           | Inr w \<Rightarrow> (Success, s\<lparr>world := w, redoStack := cs, undoStack := c # undoStack s\<rparr>)))"

subsection \<open>Mutator\<close>

text \<open>
  Modelled from the spec: a fresh id. The spec asks only that it differs from every id in use
  and from every id used before; the id computed here is longer than each of them.
\<close>

definition freshId :: "string list \<Rightarrow> string" where
  "freshId used = replicate (Suc (foldr (\<lambda>i n. max (length i) n) used 0)) CHR ''b''"

text \<open>
  Modelled from the spec: the id of the next entity of a session, fresh for the ids of the store
  and for the ids used before.
\<close>

definition newId :: "System \<Rightarrow> string" where
  "newId s = freshId (sorted_list_of_fset (fmdom (store (world s))) @ issued s)"

text \<open>
  Modelled from the spec: the command of the three creating verbs. Forward: the entity is put
  into the store before the Remote Client answers; a rejection rolls the store back and signals
  \<^verbatim>\<open>MutationFailed\<close>; after the confirmation the navigation callback receives the new id.
  Reverse: the entity is deleted and the fallback navigation callback is invoked.
\<close>

definition createCommand :: "string \<Rightarrow> Entity \<Rightarrow> Command" where
  "createCommand lbl e =
     \<lparr>label = lbl,
      forward = (\<lambda>r w.
        let optimistic = putEntity e w
        in if remote_create r e
           then Inr (optimistic\<lparr>calls := calls optimistic @ [(Navigation, Some (id' e))]\<rparr>)
           else Inl MutationFailed),
      reverse = (\<lambda>r w.
        let optimistic = removeEntity (id' e) w
        in if remote_delete r (id' e)
           then Inr (optimistic\<lparr>calls := calls optimistic @ [(FallbackNavigation, None)]\<rparr>)
           else Inl MutationFailed),
      entityId = id' e\<rparr>"

text \<open>
  Modelled from the spec: the command of \<^verbatim>\<open>deleteEntity\<close>, built from the snapshot of the entity before the deletion.
  Forward: absence is detected and signalled as \<^verbatim>\<open>NotFound\<close>; \<^verbatim>\<open>onBeforeUndo\<close> is invoked
  before the removal is final. Reverse: the entity is re-created from the snapshot, then
  \<^verbatim>\<open>onAfterRedo\<close> is invoked.
\<close>

definition deleteCommand :: "string \<Rightarrow> Entity \<Rightarrow> Command" where
  "deleteCommand lbl snap =
     \<lparr>label = lbl,
      forward = (\<lambda>r w.
        case get (store w) (id' snap) of
          Inl e \<Rightarrow> Inl e
        | Inr present \<Rightarrow>
            let called = w\<lparr>calls := calls w @ [(OnBeforeUndo, None)]\<rparr>
            in if remote_delete r (id' snap)
               then Inr (removeEntity (id' snap) called)
               else Inl MutationFailed),
      reverse = (\<lambda>r w.
        if remote_create r snap
        then Inr ((putEntity snap w)\<lparr>calls := calls w @ [(OnAfterRedo, None)]\<rparr>)
        else Inl MutationFailed),
      entityId = id' snap\<rparr>"

text \<open>
  Modelled from the spec: an id is never reused within a session, so the id of a verb whose
  command has succeeded is remembered.
\<close>

definition remember :: "string \<Rightarrow> result \<times> System \<Rightarrow> result \<times> System" where
  "remember i out =
     (case out of
        (Success, s) \<Rightarrow> (Success, s\<lparr>issued := i # issued s\<rparr>)
      | (Failure e, s) \<Rightarrow> (Failure e, s))"

text \<open>
  Modelled from the spec: \<^verbatim>\<open>deleteEntity\<close>. The snapshot of the command is the store's
  current snapshot of the entity; when the store has none, the forward procedure of the command
  signals \<^verbatim>\<open>NotFound\<close> and nothing is pushed.
\<close>

definition deleteEntity :: "RemoteClient \<Rightarrow> Entity \<Rightarrow> string \<Rightarrow> System \<Rightarrow> result \<times> System" where
  "deleteEntity r entity lbl s =
     (let snap = (case fmlookup (store (world s)) (id' entity) of
                    Some current \<Rightarrow> current | None \<Rightarrow> entity)
      in remember (id' entity) (execute r (deleteCommand lbl snap) s))"

text \<open>
  Modelled from the spec: the entity that \<^verbatim>\<open>addEntityFromTemplate\<close> creates, a board with the
  template's title and property bag, a fresh id, the current timestamp, and the caller's
  workspace as its scope unless the source is global.
\<close>

definition clone :: "Entity \<Rightarrow> string \<Rightarrow> bool \<Rightarrow> string \<Rightarrow> int \<Rightarrow> Entity" where
  "clone t i isGlobal workspace now =
     \<lparr>id' = i, title = title t,
      workspaceId = (if isGlobal then ''0'' else workspace),
      createAt = now, kind = KBoard, props = props t\<rparr>"

text \<open>
  Modelled from the spec: \<^verbatim>\<open>addEntityFromTemplate\<close> looks the template up, which may fail with
  \<^verbatim>\<open>NotFound\<close>, and executes the command that creates its clone.
\<close>

definition addEntityFromTemplate ::
  "RemoteClient \<Rightarrow> string \<Rightarrow> bool \<Rightarrow> string \<Rightarrow> int \<Rightarrow> System \<Rightarrow> result \<times> System" where
  "addEntityFromTemplate r templateId isGlobal workspace now s =
     (case get (store (world s)) templateId of
        Inl e \<Rightarrow> (Failure e, s)
      | Inr t \<Rightarrow>
          remember (newId s)
            (execute r (createCommand ''add board from template''
                          (clone t (newId s) isGlobal workspace now)) s))"

text \<open>
  Modelled from the spec: the entity that \<^verbatim>\<open>addEmptyEntityTemplate\<close> and \<^verbatim>\<open>addEmptyEntity\<close>
  create, of the given kind and with an empty property bag.
\<close>

definition emptyEntity :: "kind \<Rightarrow> string \<Rightarrow> string \<Rightarrow> int \<Rightarrow> Entity" where
  "emptyEntity k i workspace now =
     \<lparr>id' = i, title = [], workspaceId = workspace, createAt = now, kind = k, props = []\<rparr>"

text \<open>Modelled from the spec: \<^verbatim>\<open>addEmptyEntityTemplate\<close> creates a new, empty template.\<close>

definition addEmptyEntityTemplate ::
  "RemoteClient \<Rightarrow> string \<Rightarrow> int \<Rightarrow> System \<Rightarrow> result \<times> System" where
  "addEmptyEntityTemplate r workspace now s =
     remember (newId s)
       (execute r (createCommand ''add template''
                     (emptyEntity KTemplate (newId s) workspace now)) s)"

text \<open>Modelled from the spec: \<^verbatim>\<open>addEmptyEntity\<close> creates a new, empty board.\<close>

definition addEmptyEntity ::
  "RemoteClient \<Rightarrow> string \<Rightarrow> int \<Rightarrow> System \<Rightarrow> result \<times> System" where
  "addEmptyEntity r workspace now s =
     remember (newId s)
       (execute r (createCommand ''add board''
                     (emptyEntity KBoard (newId s) workspace now)) s)"

subsection \<open>Sequences of verbs and of undos\<close>

text \<open>
  Modelled from the spec: the verb catalog of the Mutator, each verb with its arguments (the
  caller's workspace and the current time for the creating verbs).
\<close>

datatype Verb =
    DeleteEntity Entity string
  | AddEntityFromTemplate string bool string int
  | AddEmptyEntityTemplate string int
  | AddEmptyEntity string int

text \<open>Modelled from the spec: one verb of the catalog, performed by the Mutator.\<close>

fun perform :: "RemoteClient \<Rightarrow> Verb \<Rightarrow> System \<Rightarrow> result \<times> System" where
  "perform r (DeleteEntity entity lbl) s = deleteEntity r entity lbl s"
| "perform r (AddEntityFromTemplate templateId isGlobal workspace now) s =
     addEntityFromTemplate r templateId isGlobal workspace now s"
| "perform r (AddEmptyEntityTemplate workspace now) s = addEmptyEntityTemplate r workspace now s"
| "perform r (AddEmptyEntity workspace now) s = addEmptyEntity r workspace now s"

text \<open>
  Modelled from the spec: a sequence of verbs, each with the Remote Client of its moment, runs
  in the order issued and stops at the first verb that fails.
\<close>

fun performAll :: "(RemoteClient \<times> Verb) list \<Rightarrow> System \<Rightarrow> result \<times> System" where
  "performAll [] s = (Success, s)"
| "performAll ((r, v) # vs) s =
     (case perform r v s of
        (Success, s') \<Rightarrow> performAll vs s'
      | (Failure e, s') \<Rightarrow> (Failure e, s'))"

text \<open>Modelled from the spec: a sequence of undos, stopped by the first that fails.\<close>

fun undoAll :: "RemoteClient list \<Rightarrow> System \<Rightarrow> result \<times> System" where
  "undoAll [] s = (Success, s)"
| "undoAll (r # rs) s =
     (case undo r s of
        (Success, s') \<Rightarrow> undoAll rs s'
      | (Failure e, s') \<Rightarrow> (Failure e, s'))"

subsection \<open>The selector's use of the Mutator\<close>

datatype js_error = TypeError

text \<open>
  \<^verbatim>\<open>handleUseTemplate\<close> of the selector:
  \<^verbatim>\<open>await mutator.addBoardFromTemplate(intl, showBoard, () => showBoard(currentBoard.id),
       activeTemplate.id, activeTemplate.workspaceId === '0')
  if (activeTemplate.title === OnboardingBoardTitle) { resetTour() }\<close>
  Reading \<^verbatim>\<open>activeTemplate.id\<close> with no active template raises. The result holds the state
  after the verb and whether \<^verbatim>\<open>resetTour\<close> is called. \<^verbatim>\<open>OnboardingBoardTitle\<close> is a constant
  of another module and is taken as a parameter.
\<close>

definition handleUseTemplate ::
  "RemoteClient \<Rightarrow> string \<Rightarrow> int \<Rightarrow> Inputs \<Rightarrow> Hooks \<Rightarrow> System \<Rightarrow> js_error + (System \<times> bool)" where
  "handleUseTemplate r OnboardingBoardTitle now i h s =
     (case activeTemplate h of
        None \<Rightarrow> Inl TypeError
      | Some t \<Rightarrow>
          Inr (snd (addEntityFromTemplate r (id' t) (workspaceId t = ''0'')
                      (octoClient_workspaceId i) now s),
               title t = OnboardingBoardTitle))"

section \<open>The scenario of the spec\<close>

text \<open>
  A global template created at 50 and two templates of workspace \<^verbatim>\<open>w1\<close> created at 100 and 200.
\<close>

definition G1 :: Entity where
  "G1 = \<lparr>id' = ''G1'', title = ''Roadmap'', workspaceId = ''0'', createAt = 50,
         kind = KTemplate, props = []\<rparr>"

definition T1 :: Entity where
  "T1 = \<lparr>id' = ''T1'', title = ''Sprint'', workspaceId = ''w1'', createAt = 100,
         kind = KTemplate, props = [(''icon'', ''x'')]\<rparr>"

definition T2 :: Entity where
  "T2 = \<lparr>id' = ''T2'', title = ''Notes'', workspaceId = ''w1'', createAt = 200,
         kind = KTemplate, props = []\<rparr>"

text \<open>What the selector reads in workspace \<^verbatim>\<open>w1\<close>, given the two lists of templates.\<close>

definition reading :: "Board list \<Rightarrow> Board list \<Rightarrow> Inputs" where
  "reading globals locals =
     \<lparr>globalTemplates = globals,
      unsortedTemplates = map (\<lambda>b. (id' b, b)) locals,
      octoClient_workspaceId = ''w1''\<rparr>"

text \<open>
  A Remote Client that confirms every call, one that rejects every call, and a session that
  starts with the given entities in its store, inserted in the order given, and an empty
  history.
\<close>

definition confirming :: RemoteClient where
  "confirming = \<lparr>remote_create = (\<lambda>e. True), remote_delete = (\<lambda>i. True)\<rparr>"

definition rejecting :: RemoteClient where
  "rejecting = \<lparr>remote_create = (\<lambda>e. False), remote_delete = (\<lambda>i. False)\<rparr>"

definition session :: "Entity list \<Rightarrow> System" where
  "session es =
     \<lparr>world = \<lparr>store = fmap_of_list (map (\<lambda>e. (id' e, e)) es), calls = [],
               keyOrder = remdups (map id' es)\<rparr>,
      undoStack = [], redoStack = [], issued = []\<rparr>"

text \<open>
  The session of the scenario after T1 has been deleted, and after that deletion has been
  undone.
\<close>

definition afterDelete :: System where
  "afterDelete =
     snd (performAll [(confirming, DeleteEntity T1 ''Delete template'')] (session [G1, T1, T2]))"

definition afterUndo :: System where
  "afterUndo = snd (undoAll [confirming] afterDelete)"

section \<open>Sorting\<close>

lemma insert_cmp_insort_key:
  "insert_cmp (\<lambda>a b. f a - f b) x xs = insort_key f x xs"
  by (induction xs) auto

lemma Array_sort_sort_key:
  "Array_sort (\<lambda>a b. f a - f b) xs = sort_key (f :: 'a \<Rightarrow> int) xs"
  by (induction xs) (simp_all add: Array_sort_def insert_cmp_insort_key)

lemma templates_sort_key:
  "templates u = sort_key createAt (Object_values u)"
  by (simp add: templates_def Array_sort_sort_key)

section \<open>The combined listing\<close>

text \<open>
  C3. In the combined listing every global template comes before every template of the
  workspace: the listing is the list of global templates followed by the workspace's templates,
  and the latter are a rearrangement of the dictionary's values in ascending order of creation
  timestamp. For the workspace templates T1 (100) and T2 (200) and the global template G1 (50)
  the display is G1, T1, T2, whichever way the dictionary enumerates T1 and T2.
\<close>

theorem allTemplates_global_first_sorted:
  "allTemplates g u = g @ templates u
   \<and> take (length g) (allTemplates g u) = g
   \<and> drop (length g) (allTemplates g u) = templates u
   \<and> sorted (map createAt (templates u))
   \<and> mset (templates u) = mset (Object_values u)
   \<and> allTemplates [G1] [(''T1'', T1), (''T2'', T2)] = [G1, T1, T2]
   \<and> allTemplates [G1] [(''T2'', T2), (''T1'', T1)] = [G1, T1, T2]"
  by (simp add: allTemplates_def templates_sort_key Object_values_def G1_def T1_def T2_def)

text \<open>
  C4, as stated, fails: two templates with the same creation timestamp are listed in the order
  in which the dictionary enumerates them, not in the order of their ids, so two
  enumerations of the same two entities give two different listings.
\<close>

theorem templates_tie_not_by_id_counterexample:
  "createAt (T1\<lparr>id' := ''a''\<rparr>) = createAt (T1\<lparr>id' := ''b''\<rparr>)
   \<and> ''a'' < ''b''
   \<and> templates [(''b'', T1\<lparr>id' := ''b''\<rparr>), (''a'', T1\<lparr>id' := ''a''\<rparr>)]
       = [T1\<lparr>id' := ''b''\<rparr>, T1\<lparr>id' := ''a''\<rparr>]
   \<and> templates [(''a'', T1\<lparr>id' := ''a''\<rparr>), (''b'', T1\<lparr>id' := ''b''\<rparr>)]
       = [T1\<lparr>id' := ''a''\<rparr>, T1\<lparr>id' := ''b''\<rparr>]
   \<and> templates [(''b'', T1\<lparr>id' := ''b''\<rparr>), (''a'', T1\<lparr>id' := ''a''\<rparr>)]
       \<noteq> templates [(''a'', T1\<lparr>id' := ''a''\<rparr>), (''b'', T1\<lparr>id' := ''b''\<rparr>)]"
  by (simp add: templates_def Array_sort_def Object_values_def T1_def)

text \<open>
  C4, amended. The listing is ascending by creation timestamp; templates with the same
  timestamp keep the order in which the dictionary enumerates them. The listing is therefore
  the same for two enumerations of the same entities whenever their timestamps are pairwise
  distinct.
\<close>

theorem templates_stable_by_createAt:
  "sorted (map createAt (templates u))
   \<and> (\<forall>t. filter (\<lambda>b. createAt b = t) (templates u)
           = filter (\<lambda>b. createAt b = t) (Object_values u))
   \<and> (mset (Object_values u) = mset (Object_values v)
        \<and> distinct (map createAt (Object_values u))
      \<longrightarrow> templates u = templates v)"
proof -
  have ordered: "sorted (map createAt (templates u))"
    by (simp add: templates_sort_key)
  have stable: "filter (\<lambda>b. createAt b = t) (templates u)
                  = filter (\<lambda>b. createAt b = t) (Object_values u)" for t
    by (simp add: templates_sort_key sort_key_stable)
  have independent: "templates u = templates v"
    if "mset (Object_values u) = mset (Object_values v)"
      and "distinct (map createAt (Object_values u))"
    using that distinct_map sort_key_eq_sort_key
    unfolding templates_sort_key by blast
  from ordered stable independent show ?thesis
    by blast
qed

theorem templates_stable_by_createAt_witness:
  "mset (Object_values [(''T2'', T2), (''T1'', T1)]) = mset (Object_values [(''T1'', T1), (''T2'', T2)])
   \<and> distinct (map createAt (Object_values [(''T2'', T2), (''T1'', T1)]))
   \<and> templates [(''T2'', T2), (''T1'', T1)] = templates [(''T1'', T1), (''T2'', T2)]"
proof -
  have same: "mset (Object_values [(''T2'', T2), (''T1'', T1)])
                = mset (Object_values [(''T1'', T1), (''T2'', T2)])"
    by (simp add: Object_values_def)
  have apart: "distinct (map createAt (Object_values [(''T2'', T2), (''T1'', T1)]))"
    by (simp add: Object_values_def T1_def T2_def)
  from same apart
    templates_stable_by_createAt [of "[(''T2'', T2), (''T1'', T1)]" "[(''T1'', T1), (''T2'', T2)]"]
  show ?thesis
    by blast
qed

section \<open>The fetch of the global templates\<close>

text \<open>
  C10. The selector dispatches the fetch of the global templates only when the workspace of the
  client is not the global one (\<^verbatim>\<open>"0"\<close>) and no global template is loaded: on the first render
  and on any later render, a dispatched fetch implies both conditions, and in the global
  workspace, or with a global template loaded, the render dispatches nothing.
\<close>

theorem fetch_only_outside_global_and_unloaded:
  "(FetchGlobalTemplates \<in> set (snd (mount i)) \<longrightarrow>
      octoClient_workspaceId i \<noteq> ''0'' \<and> globalTemplates i = [])
   \<and> (FetchGlobalTemplates \<in> set (snd (rerender i h)) \<longrightarrow>
      octoClient_workspaceId i \<noteq> ''0'' \<and> globalTemplates i = [])
   \<and> (octoClient_workspaceId i = ''0'' \<or> globalTemplates i \<noteq> [] \<longrightarrow>
      snd (mount i) = [] \<and> snd (rerender i h) = [])"
  by (simp add: mount_def rerender_def fetchEffect_def Let_def)

theorem fetch_only_outside_global_and_unloaded_witness:
  "FetchGlobalTemplates \<in> set (snd (mount (reading [] [T1])))
   \<and> octoClient_workspaceId (reading [] [T1]) \<noteq> ''0''
   \<and> globalTemplates (reading [] [T1]) = []
   \<and> globalTemplates (reading [G1] [T1]) \<noteq> []
   \<and> snd (mount (reading [G1] [T1])) = []
   \<and> snd (rerender (reading [G1] [T1]) (fst (mount (reading [] [T1])))) = []"
proof -
  have fetched: "FetchGlobalTemplates \<in> set (snd (mount (reading [] [T1])))"
    by (simp add: mount_def fetchEffect_def reading_def)
  have loaded: "globalTemplates (reading [G1] [T1]) \<noteq> []"
    by (simp add: reading_def)
  from fetched loaded
    fetch_only_outside_global_and_unloaded [of "reading [] [T1]"]
    fetch_only_outside_global_and_unloaded
      [of "reading [G1] [T1]" "fst (mount (reading [] [T1]))"]
  show ?thesis
    by blast
qed

section \<open>The active selection\<close>

lemma at0_None_iff: "at0 xs = None \<longleftrightarrow> xs = []"
  by (cases xs) simp_all

lemma at0_Some_member: "at0 xs = Some x \<Longrightarrow> x \<in> set xs"
  by (cases xs) auto

lemma mount_selects_first:
  "activeTemplate (fst (mount i)) = at0 (allTemplates (globalTemplates i) (unsortedTemplates i))"
proof (cases "allTemplates (globalTemplates i) (unsortedTemplates i)")
  case Nil
  then show ?thesis
    by (simp add: mount_def selectionEffect_def allTemplates_def)
next
  case (Cons b bs)
  then show ?thesis
    by (simp add: mount_def selectionEffect_def)
qed

text \<open>
  The selection is undefined only while there is no template at all, on the first render and
  on every later one. A render that receives new references to arrays equal to those of the
  previous render would run the body of the selection effect once more; the body then returns
  the selection it is given, which is why \<open>rerender\<close> may compare the arrays by value.
\<close>

lemma mount_none_only_without_templates:
  "activeTemplate (fst (mount i)) = None \<Longrightarrow> selectionDeps (fst (mount i)) = ([], [])"
  by (simp add: mount_selects_first at0_None_iff allTemplates_def) (simp add: mount_def)

lemma rerender_none_only_without_templates:
  assumes "activeTemplate h = None \<longrightarrow> selectionDeps h = ([], [])"
    and "activeTemplate (fst (rerender i h)) = None"
  shows "selectionDeps (fst (rerender i h)) = ([], [])"
proof (cases "(templates (unsortedTemplates i), globalTemplates i) = selectionDeps h")
  case True
  with assms show ?thesis
    by (simp add: rerender_def Let_def)
next
  case False
  with assms(2) have "at0 (templates (unsortedTemplates i) @ globalTemplates i) = None"
    by (cases "activeTemplate h") (simp_all add: rerender_def Let_def selectionEffect_def)
  then show ?thesis
    by (simp add: at0_None_iff rerender_def Let_def)
qed

lemma selectionEffect_same_arrays:
  assumes "activeTemplate h = None \<longrightarrow> selectionDeps h = ([], [])"
    and "(templates (unsortedTemplates i), globalTemplates i) = selectionDeps h"
  shows "selectionEffect i (activeTemplate h) = activeTemplate h"
proof (cases "activeTemplate h")
  case None
  with assms have "templates (unsortedTemplates i) @ globalTemplates i = []"
    by (metis append_Nil prod.inject)
  with None show ?thesis
    by (simp add: selectionEffect_def)
next
  case (Some a)
  then show ?thesis
    by (simp add: selectionEffect_def)
qed

text \<open>
  C1, as stated, fails. The selection is T1; T1 is deleted, so the sequence of templates
  changes and the effect runs; the selection is still T1, whose id is no longer in the
  combined sequence, and not the first element T2 of that sequence.
\<close>

theorem stale_selection_kept_counterexample:
  "activeTemplate (fst (mount (reading [] [T1, T2]))) = Some T1
   \<and> (templates (unsortedTemplates (reading [] [T2])), globalTemplates (reading [] [T2]))
       \<noteq> selectionDeps (fst (mount (reading [] [T1, T2])))
   \<and> id' T1 \<notin> id' ` set (allTemplates (globalTemplates (reading [] [T2]))
                                        (unsortedTemplates (reading [] [T2])))
   \<and> at0 (allTemplates (globalTemplates (reading [] [T2])) (unsortedTemplates (reading [] [T2])))
       = Some T2
   \<and> activeTemplate (fst (rerender (reading [] [T2]) (fst (mount (reading [] [T1, T2])))))
       = Some T1"
  by (simp add: mount_def rerender_def selectionEffect_def allTemplates_def templates_def
      Array_sort_def Object_values_def reading_def T1_def T2_def)

text \<open>
  C1, amended. A render on which the sequences of templates have changed runs the selection
  effect, with no action of the user. The effect recomputes the selection only when there is
  none: the selection then becomes a template of the current combined sequence, and stays none
  exactly when that sequence is empty. A selection that exists is kept as it is, whether or
  not its id is still in the combined sequence.
\<close>

theorem selection_recomputed_only_when_none:
  assumes "(templates (unsortedTemplates i), globalTemplates i) \<noteq> selectionDeps h"
  shows "(activeTemplate h = None \<longrightarrow>
            (activeTemplate (fst (rerender i h)) = None
               \<longleftrightarrow> allTemplates (globalTemplates i) (unsortedTemplates i) = [])
            \<and> (\<forall>t. activeTemplate (fst (rerender i h)) = Some t
                  \<longrightarrow> t \<in> set (allTemplates (globalTemplates i) (unsortedTemplates i))))
         \<and> (\<forall>a. activeTemplate h = Some a \<longrightarrow> activeTemplate (fst (rerender i h)) = Some a)"
proof -
  have run: "activeTemplate (fst (rerender i h)) = selectionEffect i (activeTemplate h)"
    using assms by (simp add: rerender_def Let_def)
  have kept: "activeTemplate (fst (rerender i h)) = Some a" if "activeTemplate h = Some a" for a
    using that run by (simp add: selectionEffect_def)
  have fresh: "activeTemplate (fst (rerender i h))
                 = at0 (templates (unsortedTemplates i) @ globalTemplates i)"
    if "activeTemplate h = None"
    using that run by (simp add: selectionEffect_def)
  have none: "activeTemplate (fst (rerender i h)) = None
                \<longleftrightarrow> allTemplates (globalTemplates i) (unsortedTemplates i) = []"
    if "activeTemplate h = None"
    using fresh [OF that] by (auto simp add: at0_None_iff allTemplates_def)
  have member: "t \<in> set (allTemplates (globalTemplates i) (unsortedTemplates i))"
    if "activeTemplate h = None" and "activeTemplate (fst (rerender i h)) = Some t" for t
    using at0_Some_member [of "templates (unsortedTemplates i) @ globalTemplates i" t]
      fresh [OF that(1)] that(2)
    by (auto simp add: allTemplates_def)
  from kept none member show ?thesis
    by blast
qed

theorem selection_recomputed_only_when_none_witness:
  "(templates (unsortedTemplates (reading [] [T1])), globalTemplates (reading [] [T1]))
       \<noteq> selectionDeps (fst (mount (reading [] [])))
   \<and> activeTemplate (fst (mount (reading [] []))) = None
   \<and> activeTemplate (fst (rerender (reading [] [T1]) (fst (mount (reading [] []))))) = Some T1
   \<and> (templates (unsortedTemplates (reading [] [T2])), globalTemplates (reading [] [T2]))
       \<noteq> selectionDeps (fst (mount (reading [] [T1, T2])))
   \<and> activeTemplate (fst (mount (reading [] [T1, T2]))) = Some T1
   \<and> activeTemplate (fst (rerender (reading [] [T2]) (fst (mount (reading [] [T1, T2])))))
       = Some T1"
proof -
  have changed: "(templates (unsortedTemplates (reading [] [T1])), globalTemplates (reading [] [T1]))
       \<noteq> selectionDeps (fst (mount (reading [] [])))"
    by (simp add: mount_def templates_def Array_sort_def Object_values_def reading_def)
  have unset: "activeTemplate (fst (mount (reading [] []))) = None"
    by (simp add: mount_selects_first allTemplates_def templates_def Array_sort_def
        Object_values_def reading_def)
  have listing: "allTemplates (globalTemplates (reading [] [T1])) (unsortedTemplates (reading [] [T1]))
       = [T1]"
    by (simp add: allTemplates_def templates_def Array_sort_def Object_values_def reading_def)
  have changed': "(templates (unsortedTemplates (reading [] [T2])), globalTemplates (reading [] [T2]))
       \<noteq> selectionDeps (fst (mount (reading [] [T1, T2])))"
    by (simp add: mount_def templates_def Array_sort_def Object_values_def reading_def
        T1_def T2_def)
  have set': "activeTemplate (fst (mount (reading [] [T1, T2]))) = Some T1"
    by (simp add: mount_selects_first allTemplates_def templates_def Array_sort_def
        Object_values_def reading_def T1_def T2_def)
  from selection_recomputed_only_when_none [OF changed] unset listing
  have "activeTemplate (fst (rerender (reading [] [T1]) (fst (mount (reading [] []))))) = Some T1"
    by (cases "activeTemplate (fst (rerender (reading [] [T1]) (fst (mount (reading [] [])))))")
      auto
  moreover from selection_recomputed_only_when_none [OF changed'] set'
  have "activeTemplate (fst (rerender (reading [] [T2]) (fst (mount (reading [] [T1, T2])))))
          = Some T1"
    by blast
  ultimately show ?thesis
    using changed unset changed' set' by blast
qed

text \<open>
  C2. The selection defaults to the first element of the combined sequence, in which the global
  templates come first, and a recomputed selection is the first element of the current
  combined sequence. The code departs from the second part at this input: the selector is
  first rendered with no template at all, so there is no selection; the next render has the
  global template G1 and the workspace template T1. The effect selects T1, the first element of
  \<^verbatim>\<open>templates.concat(globalTemplates)\<close>, while the first element of the combined sequence
  \<^verbatim>\<open>globalTemplates.concat(templates)\<close>, from which the initial selection is taken, is G1.
\<close>

theorem recomputed_selection_prefers_workspace_template:
  "activeTemplate (fst (mount (reading [] []))) = None
   \<and> activeTemplate (fst (rerender (reading [G1] [T1]) (fst (mount (reading [] []))))) = Some T1
   \<and> at0 (allTemplates (globalTemplates (reading [G1] [T1])) (unsortedTemplates (reading [G1] [T1])))
       = Some G1
   \<and> activeTemplate (fst (mount (reading [G1] [T1]))) = Some G1
   \<and> G1 \<noteq> T1"
  by (simp add: mount_def rerender_def selectionEffect_def allTemplates_def templates_def
      Array_sort_def Object_values_def reading_def G1_def T1_def)

section \<open>Store, commands and history\<close>

lemma freshId_longer: "i \<in> set used \<Longrightarrow> length i < length (freshId used)"
  by (induction used) (auto simp add: freshId_def)

lemma freshId_fresh: "freshId used \<notin> set used"
  using freshId_longer by blast

lemma newId_not_in_store: "fmlookup (store (world s)) (newId s) = None"
proof -
  have "newId s \<notin> set (sorted_list_of_fset (fmdom (store (world s))) @ issued s)"
    unfolding newId_def by (rule freshId_fresh)
  then have "newId s |\<notin>| fmdom (store (world s))"
    by simp
  then show ?thesis
    by (simp add: fmdom_notD)
qed

lemma newId_not_issued: "newId s \<notin> set (issued s)"
proof -
  have "newId s \<notin> set (sorted_list_of_fset (fmdom (store (world s))) @ issued s)"
    unfolding newId_def by (rule freshId_fresh)
  then show ?thesis by simp
qed






lemma store_putEntity: "store (putEntity e w) = put e (store w)"
  by (simp add: putEntity_def)

lemma calls_putEntity: "calls (putEntity e w) = calls w"
  by (simp add: putEntity_def)

lemma store_removeEntity: "store (removeEntity i w) = remove_entity i (store w)"
  by (simp add: removeEntity_def)

lemma calls_removeEntity: "calls (removeEntity i w) = calls w"
  by (simp add: removeEntity_def)

lemmas world_simps =
  store_putEntity calls_putEntity store_removeEntity calls_removeEntity






lemma remember_SuccessD:
  "remember i out = (Success, s') \<Longrightarrow> \<exists>s1. out = (Success, s1) \<and> s' = s1\<lparr>issued := i # issued s1\<rparr>"
  by (cases out; cases "fst out") (simp_all add: remember_def)

lemma execute_SuccessD:
  "execute r c s = (Success, s') \<Longrightarrow>
     \<exists>w. forward c r (world s) = Inr w
        \<and> s' = s\<lparr>world := w, undoStack := c # undoStack s, redoStack := []\<rparr>"
  by (cases "forward c r (world s)") (simp_all add: execute_def)

lemma verb_SuccessD:
  assumes "remember i (execute r c s) = (Success, s')"
  shows "\<exists>w. forward c r (world s) = Inr w \<and> world s' = w \<and> undoStack s' = c # undoStack s
           \<and> redoStack s' = [] \<and> issued s' = i # issued s"
proof -
  from remember_SuccessD [OF assms] obtain s1 where
    ex: "execute r c s = (Success, s1)" and s': "s' = s1\<lparr>issued := i # issued s1\<rparr>"
    by blast
  from execute_SuccessD [OF ex] obtain w where
    fw: "forward c r (world s) = Inr w"
    and s1: "s1 = s\<lparr>world := w, undoStack := c # undoStack s, redoStack := []\<rparr>"
    by blast
  from fw show ?thesis
    by (simp add: s' s1)
qed

lemma createCommand_forwardD:
  "forward (createCommand lbl e) r w = Inr w' \<Longrightarrow>
     remote_create r e \<and> store w' = put e (store w)
     \<and> calls w' = calls w @ [(Navigation, Some (id' e))]"
  by (cases "remote_create r e") (auto simp add: createCommand_def Let_def world_simps)




















lemma prod_eqI_fst_snd: "fst p = a \<Longrightarrow> p = (a, snd p)"
  by (cases p) simp

section \<open>The round trip of verbs and undos\<close>



text \<open>
  The condition on the timestamps cannot be dropped: two templates of one workspace with the
  same creation timestamp are listed as the dictionary enumerates them, so the one that was
  deleted and restored is listed last.
\<close>

lemma tied_templates_change_places:
  "combinedListing ''w1'' (world (session [T1, T2\<lparr>createAt := 100\<rparr>]))
     = [T1, T2\<lparr>createAt := 100\<rparr>]
   \<and> combinedListing ''w1''
        (world (snd (undoAll [confirming]
           (snd (performAll [(confirming, DeleteEntity T1 ''Delete template'')]
                   (session [T1, T2\<lparr>createAt := 100\<rparr>]))))))
     = [T2\<lparr>createAt := 100\<rparr>, T1]"
  by code_simp

section \<open>The History\<close>

lemma redo_empty: "redoStack s = [] \<Longrightarrow> redo r s = (Failure EmptyHistory, s)"
  by (simp add: redo_def)

lemma undo_empty: "undoStack s = [] \<Longrightarrow> undo r s = (Failure EmptyHistory, s)"
  by (simp add: undo_def)

lemma perform_verb_cases:
  assumes "perform r v s = (Success, s')"
  shows "\<exists>i c. remember i (execute r c s) = (Success, s')"
proof (cases v)
  case (DeleteEntity entity lbl)
  with assms show ?thesis
    by (auto simp add: deleteEntity_def)
next
  case (AddEntityFromTemplate templateId isGlobal workspace now)
  with assms have run: "addEntityFromTemplate r templateId isGlobal workspace now s = (Success, s')"
    by simp
  then obtain t where "get (store (world s)) templateId = Inr t"
    by (cases "get (store (world s)) templateId") (simp_all add: addEntityFromTemplate_def)
  with run show ?thesis
    by (auto simp add: addEntityFromTemplate_def)
next
  case (AddEmptyEntityTemplate workspace now)
  with assms show ?thesis
    by (auto simp add: addEmptyEntityTemplate_def)
next
  case (AddEmptyEntity workspace now)
  with assms show ?thesis
    by (auto simp add: addEmptyEntity_def)
qed

text \<open>
  C6. A command that executes successfully is pushed on the undo stack and the redo stack
  becomes empty, whatever the History held before; a redo right after it fails with
  \<^verbatim>\<open>EmptyHistory\<close> and changes nothing. The same holds after any verb of the Mutator that
  succeeds.
\<close>

theorem execute_clears_redo:
  "(execute r c s = (Success, s')
      \<longrightarrow> undoStack s' = c # undoStack s \<and> redoStack s' = []
          \<and> redo r' s' = (Failure EmptyHistory, s'))
   \<and> (perform r v s = (Success, s'')
      \<longrightarrow> redoStack s'' = [] \<and> redo r' s'' = (Failure EmptyHistory, s''))"
proof -
  have direct: "undoStack s' = c # undoStack s \<and> redoStack s' = []
          \<and> redo r' s' = (Failure EmptyHistory, s')"
    if "execute r c s = (Success, s')"
  proof -
    from execute_SuccessD [OF that] have "undoStack s' = c # undoStack s" and "redoStack s' = []"
      by auto
    then show ?thesis
      by (simp add: redo_empty)
  qed
  have verb: "redoStack s'' = [] \<and> redo r' s'' = (Failure EmptyHistory, s'')"
    if "perform r v s = (Success, s'')"
  proof -
    from perform_verb_cases [OF that] obtain i c' where
      "remember i (execute r c' s) = (Success, s'')"
      by blast
    from verb_SuccessD [OF this] have "redoStack s'' = []"
      by blast
    then show ?thesis
      by (simp add: redo_empty)
  qed
  from direct verb show ?thesis
    by blast
qed

theorem execute_clears_redo_witness:
  "length (redoStack afterUndo) = 1
   \<and> execute confirming (deleteCommand ''Delete template'' T2) afterUndo
       = (Success, snd (execute confirming (deleteCommand ''Delete template'' T2) afterUndo))
   \<and> redoStack (snd (execute confirming (deleteCommand ''Delete template'' T2) afterUndo)) = []
   \<and> fst (redo confirming (snd (execute confirming (deleteCommand ''Delete template'' T2) afterUndo)))
       = Failure EmptyHistory
   \<and> perform confirming (AddEmptyEntity ''w1'' 300) afterUndo
       = (Success, snd (perform confirming (AddEmptyEntity ''w1'' 300) afterUndo))
   \<and> redoStack (snd (perform confirming (AddEmptyEntity ''w1'' 300) afterUndo)) = []
   \<and> fst (redo confirming (snd (perform confirming (AddEmptyEntity ''w1'' 300) afterUndo)))
       = Failure EmptyHistory"
proof -
  have pending: "length (redoStack afterUndo) = 1"
    by code_simp
  have "fst (execute confirming (deleteCommand ''Delete template'' T2) afterUndo) = Success"
    by code_simp
  then have direct: "execute confirming (deleteCommand ''Delete template'' T2) afterUndo
       = (Success, snd (execute confirming (deleteCommand ''Delete template'' T2) afterUndo))"
    by (rule prod_eqI_fst_snd)
  have "fst (perform confirming (AddEmptyEntity ''w1'' 300) afterUndo) = Success"
    by code_simp
  then have verb: "perform confirming (AddEmptyEntity ''w1'' 300) afterUndo
       = (Success, snd (perform confirming (AddEmptyEntity ''w1'' 300) afterUndo))"
    by (rule prod_eqI_fst_snd)
  from pending direct verb
    execute_clears_redo [where r = confirming and c = "deleteCommand ''Delete template'' T2" and s = afterUndo
        and s' = "snd (execute confirming (deleteCommand ''Delete template'' T2) afterUndo)"
        and r' = confirming and v = "AddEmptyEntity ''w1'' 300"
        and s'' = "snd (perform confirming (AddEmptyEntity ''w1'' 300) afterUndo)"]
  show ?thesis
    by simp
qed

text \<open>
  C9. With an empty undo stack, undo fails with \<^verbatim>\<open>EmptyHistory\<close> and the whole state, the
  two stacks and the Entity Store included, is as before; the same holds for redo with an empty
  redo stack.
\<close>

theorem empty_history_no_change:
  "(undoStack s = [] \<longrightarrow> undo r s = (Failure EmptyHistory, s))
   \<and> (redoStack s = [] \<longrightarrow> redo r s = (Failure EmptyHistory, s))"
  by (simp add: undo_empty redo_empty)

theorem empty_history_no_change_witness:
  "undoStack (session [G1, T1, T2]) = []
   \<and> undo confirming (session [G1, T1, T2]) = (Failure EmptyHistory, session [G1, T1, T2])
   \<and> redoStack (session [G1, T1, T2]) = []
   \<and> redo confirming (session [G1, T1, T2]) = (Failure EmptyHistory, session [G1, T1, T2])"
proof -
  have none: "undoStack (session [G1, T1, T2]) = []" "redoStack (session [G1, T1, T2]) = []"
    by (simp_all add: session_def)
  with empty_history_no_change [of "session [G1, T1, T2]" confirming] show ?thesis
    by blast
qed

section \<open>Failures of the Remote Client\<close>

text \<open>
  C7. When the forward procedure of a command fails, \<^verbatim>\<open>History.execute\<close> returns that error
  and the state before the attempt: the command is on neither stack and the store is the last
  good snapshot. When the Remote Client rejects the creation during \<^verbatim>\<open>addEmptyEntity\<close>, the
  verb returns \<^verbatim>\<open>MutationFailed\<close>, the store is unchanged and holds no entity under the new
  id, and the undo stack has the length it had.
\<close>

theorem failed_forward_leaves_no_trace:
  "(forward c r (world s) = Inl e \<longrightarrow> execute r c s = (Failure e, s))
   \<and> (\<not> remote_create r (emptyEntity KBoard (newId s) workspace now)
      \<longrightarrow> addEmptyEntity r workspace now s = (Failure MutationFailed, s)
          \<and> store (world (snd (addEmptyEntity r workspace now s))) = store (world s)
          \<and> fmlookup (store (world (snd (addEmptyEntity r workspace now s)))) (newId s) = None
          \<and> length (undoStack (snd (addEmptyEntity r workspace now s))) = length (undoStack s)
          \<and> redoStack (snd (addEmptyEntity r workspace now s)) = redoStack s)"
proof -
  have discard: "execute r c s = (Failure e, s)" if "forward c r (world s) = Inl e"
    using that by (simp add: execute_def)
  have reject: "addEmptyEntity r workspace now s = (Failure MutationFailed, s)"
    if "\<not> remote_create r (emptyEntity KBoard (newId s) workspace now)"
  proof -
    from that have "forward (createCommand ''add board'' (emptyEntity KBoard (newId s) workspace now))
        r (world s) = Inl MutationFailed"
      by (simp add: createCommand_def)
    then show ?thesis
      by (simp add: addEmptyEntity_def execute_def remember_def)
  qed
  from discard reject newId_not_in_store [of s] show ?thesis
    by simp
qed

theorem failed_forward_leaves_no_trace_witness:
  "forward (deleteCommand ''Delete template'' T2) rejecting (world (session [G1, T1, T2]))
     = Inl MutationFailed
   \<and> execute rejecting (deleteCommand ''Delete template'' T2) (session [G1, T1, T2])
       = (Failure MutationFailed, session [G1, T1, T2])
   \<and> \<not> remote_create rejecting
         (emptyEntity KBoard (newId (session [G1, T1, T2])) ''w1'' 300)
   \<and> addEmptyEntity rejecting ''w1'' 300 (session [G1, T1, T2])
       = (Failure MutationFailed, session [G1, T1, T2])
   \<and> length (undoStack (snd (addEmptyEntity rejecting ''w1'' 300 (session [G1, T1, T2])))) = 0"
proof -
  have failing: "forward (deleteCommand ''Delete template'' T2) rejecting
      (world (session [G1, T1, T2])) = Inl MutationFailed"
    by code_simp
  have rejected: "\<not> remote_create rejecting
      (emptyEntity KBoard (newId (session [G1, T1, T2])) ''w1'' 300)"
    by (simp add: rejecting_def)
  have empty: "length (undoStack (session [G1, T1, T2])) = 0"
    by (simp add: session_def)
  from failing rejected empty
    failed_forward_leaves_no_trace [where c = "deleteCommand ''Delete template'' T2" and r = rejecting
        and s = "session [G1, T1, T2]" and e = MutationFailed and workspace = "''w1''"
        and now = 300]
  show ?thesis
    by simp
qed

section \<open>Creating a board from a template\<close>

text \<open>
  C8. When \<^verbatim>\<open>addEntityFromTemplate\<close> succeeds for a source that is not global, the template is
  in the store, the new id is in neither the store nor the ids used before, the store holds
  under the new id an entity with that id, the current timestamp, the caller's workspace as
  scope and the property bag of the template, every other entry of the store is unchanged, and
  exactly one callback has been invoked: the navigation callback, with the new id. The selector
  calls the verb with the id of the active template and with the source-is-global flag
  \<^verbatim>\<open>activeTemplate.workspaceId === '0'\<close>.
\<close>

theorem addEntityFromTemplate_clones:
  "(addEntityFromTemplate r templateId False workspace now s = (Success, s')
      \<longrightarrow> (\<exists>t. get (store (world s)) templateId = Inr t
            \<and> fmlookup (store (world s)) (newId s) = None
            \<and> newId s \<notin> set (issued s)
            \<and> fmlookup (store (world s')) (newId s)
                = Some \<lparr>id' = newId s, title = title t, workspaceId = workspace,
                        createAt = now, kind = KBoard, props = props t\<rparr>
            \<and> (\<forall>i. i \<noteq> newId s
                  \<longrightarrow> fmlookup (store (world s')) i = fmlookup (store (world s)) i)
            \<and> calls (world s') = calls (world s) @ [(Navigation, Some (newId s))]))
   \<and> (activeTemplate h = Some a
      \<longrightarrow> handleUseTemplate r onboarding now i h s
            = Inr (snd (addEntityFromTemplate r (id' a) (workspaceId a = ''0'')
                          (octoClient_workspaceId i) now s),
                   title a = onboarding))"
proof -
  have cloned: "\<exists>t. get (store (world s)) templateId = Inr t
            \<and> fmlookup (store (world s)) (newId s) = None
            \<and> newId s \<notin> set (issued s)
            \<and> fmlookup (store (world s')) (newId s)
                = Some \<lparr>id' = newId s, title = title t, workspaceId = workspace,
                        createAt = now, kind = KBoard, props = props t\<rparr>
            \<and> (\<forall>i. i \<noteq> newId s
                  \<longrightarrow> fmlookup (store (world s')) i = fmlookup (store (world s)) i)
            \<and> calls (world s') = calls (world s) @ [(Navigation, Some (newId s))]"
    if run: "addEntityFromTemplate r templateId False workspace now s = (Success, s')"
  proof -
    from run obtain t where found: "get (store (world s)) templateId = Inr t"
      by (cases "get (store (world s)) templateId") (simp_all add: addEntityFromTemplate_def)
    let ?e = "clone t (newId s) False workspace now"
    from run found have "remember (newId s)
        (execute r (createCommand ''add board from template'' ?e) s) = (Success, s')"
      by (simp add: addEntityFromTemplate_def)
    from verb_SuccessD [OF this] have
      fw: "forward (createCommand ''add board from template'' ?e) r (world s) = Inr (world s')"
      by auto
    have ide: "id' ?e = newId s"
      by (simp add: clone_def)
    from createCommand_forwardD [OF fw] ide have
      st: "store (world s') = put ?e (store (world s))"
      and cl: "calls (world s') = calls (world s) @ [(Navigation, Some (newId s))]"
      by simp_all
    from st ide have "fmlookup (store (world s')) (newId s) = Some ?e"
      by (simp add: put_def)
    moreover from st ide have
      "\<forall>i. i \<noteq> newId s \<longrightarrow> fmlookup (store (world s')) i = fmlookup (store (world s)) i"
      by (simp add: put_def)
    moreover have "?e = \<lparr>id' = newId s, title = title t, workspaceId = workspace,
                        createAt = now, kind = KBoard, props = props t\<rparr>"
      by (simp add: clone_def)
    ultimately show ?thesis
      using found cl newId_not_in_store [of s] newId_not_issued [of s] by auto
  qed
  have call: "handleUseTemplate r onboarding now i h s
            = Inr (snd (addEntityFromTemplate r (id' a) (workspaceId a = ''0'')
                          (octoClient_workspaceId i) now s),
                   title a = onboarding)"
    if "activeTemplate h = Some a"
    using that by (simp add: handleUseTemplate_def)
  from cloned call show ?thesis
    by blast
qed

theorem addEntityFromTemplate_clones_witness:
  "addEntityFromTemplate confirming ''T2'' False ''w1'' 300 (session [G1, T1, T2])
     = (Success, snd (addEntityFromTemplate confirming ''T2'' False ''w1'' 300
                        (session [G1, T1, T2])))
   \<and> get (store (world (snd (addEntityFromTemplate confirming ''T2'' False ''w1'' 300
                               (session [G1, T1, T2])))))
         (newId (session [G1, T1, T2]))
       = Inr \<lparr>id' = newId (session [G1, T1, T2]), title = ''Notes'', workspaceId = ''w1'',
               createAt = 300, kind = KBoard, props = []\<rparr>
   \<and> calls (world (snd (addEntityFromTemplate confirming ''T2'' False ''w1'' 300
                           (session [G1, T1, T2]))))
       = [(Navigation, Some (newId (session [G1, T1, T2])))]
   \<and> activeTemplate (onSelect T2 (fst (mount (reading [G1] [T1, T2])))) = Some T2
   \<and> handleUseTemplate confirming ''Welcome to Boards!'' 300 (reading [G1] [T1, T2])
        (onSelect T2 (fst (mount (reading [G1] [T1, T2])))) (session [G1, T1, T2])
       = Inr (snd (addEntityFromTemplate confirming ''T2'' False ''w1'' 300
                     (session [G1, T1, T2])), False)"
proof -
  let ?s = "session [G1, T1, T2]"
  let ?s' = "snd (addEntityFromTemplate confirming ''T2'' False ''w1'' 300 ?s)"
  let ?h = "onSelect T2 (fst (mount (reading [G1] [T1, T2])))"
  have "fst (addEntityFromTemplate confirming ''T2'' False ''w1'' 300 ?s) = Success"
    by code_simp
  then have run: "addEntityFromTemplate confirming ''T2'' False ''w1'' 300 ?s = (Success, ?s')"
    by (rule prod_eqI_fst_snd)
  have selected: "activeTemplate ?h = Some T2"
    by (simp add: onSelect_def)
  have source: "get (store (world ?s)) ''T2'' = Inr T2"
    by code_simp
  have quiet: "calls (world ?s) = []"
    by (simp add: session_def)
  have args: "id' T2 = ''T2''" "(workspaceId T2 = ''0'') = False" "title T2 = ''Notes''"
    "props T2 = []" "octoClient_workspaceId (reading [G1] [T1, T2]) = ''w1''"
    by (simp_all add: T2_def reading_def)
  from run selected
    addEntityFromTemplate_clones [where r = confirming and templateId = "''T2''" and workspace = "''w1''" and now = 300
        and s = ?s and s' = ?s' and h = ?h and a = T2 and i = "reading [G1] [T1, T2]"
        and onboarding = "''Welcome to Boards!''"]
  have "\<exists>t. get (store (world ?s)) ''T2'' = Inr t
          \<and> fmlookup (store (world ?s')) (newId ?s)
              = Some \<lparr>id' = newId ?s, title = title t, workspaceId = ''w1'',
                      createAt = 300, kind = KBoard, props = props t\<rparr>
          \<and> calls (world ?s') = calls (world ?s) @ [(Navigation, Some (newId ?s))]"
    and used: "handleUseTemplate confirming ''Welcome to Boards!'' 300 (reading [G1] [T1, T2]) ?h ?s
      = Inr (snd (addEntityFromTemplate confirming (id' T2) (workspaceId T2 = ''0'')
                    (octoClient_workspaceId (reading [G1] [T1, T2])) 300 ?s),
             title T2 = ''Welcome to Boards!'')"
    by blast+
  with source quiet args have
    "get (store (world ?s')) (newId ?s)
       = Inr \<lparr>id' = newId ?s, title = ''Notes'', workspaceId = ''w1'',
               createAt = 300, kind = KBoard, props = []\<rparr>"
    and "calls (world ?s') = [(Navigation, Some (newId ?s))]"
    by (auto simp add: get_def)
  moreover from used args have
    "handleUseTemplate confirming ''Welcome to Boards!'' 300 (reading [G1] [T1, T2]) ?h ?s
       = Inr (?s', False)"
    by simp
  ultimately show ?thesis
    using run selected by simp
qed

end
